theory Spec2Isabelle
  imports Complex_Main
begin

section \<open>Fiber segmentation (ark/segmentation/fiber\_segmentation.py)\<close>

text \<open>
  The module holds two functions, \<^verbatim>\<open>plot_fiber_segmentation_steps\<close> and
  \<^verbatim>\<open>segment_fibers\<close>. Both are glue around numpy, scipy.ndimage, scikit-image,
  pandas and the os module. The embedding below translates the glue statement by
  statement. The routines of scipy and scikit-image are not part of the repository:
  they are parameters of the model (the record \<open>lib\<close>), each one a function of its
  arguments that returns either an exception or a value. What the array operators of
  numpy, the os calls and the pandas calls do is written out, because the claims are
  about exactly those steps.
\<close>

subsection \<open>Exceptions\<close>

text \<open>
  The exceptions that the module raises itself or provokes in Python, numpy, pandas
  and os, and one constructor for whatever else a library routine may raise. The two
  file errors carry the path they are about. \<open>TypeError\<close> is what a dict raises for a
  key that cannot be hashed.
\<close>

datatype error =
    KeyError
  | FileNotFoundError string
  | FileExistsError string
  | ZeroDivisionError
  | ValueError
  | IndexError
  | TypeError
  | LibraryError string

definition bindE :: "error + 'a \<Rightarrow> ('a \<Rightarrow> error + 'b) \<Rightarrow> error + 'b" where
  "bindE m f = (case m of Inl e \<Rightarrow> Inl e | Inr v \<Rightarrow> f v)"

subsection \<open>numpy float64 values and their operators\<close>

text \<open>
  A float64 is a finite value, one of the two infinities, or NaN. Finite values are
  reals here: rounding and overflow are left out, signed zeros are identified. The
  special values are kept, since numpy arithmetic returns them where Python's own
  float arithmetic would raise: \<^verbatim>\<open>np.float64(0.0) / np.float64(0.0)\<close> is NaN (with a
  RuntimeWarning), not a ZeroDivisionError.
\<close>

datatype npfloat = Fin real | PInf | NInf | NaN

fun np_less :: "npfloat \<Rightarrow> npfloat \<Rightarrow> bool" where
  "np_less (Fin a) (Fin b) = (a < b)"
| "np_less (Fin a) PInf = True"
| "np_less NInf (Fin b) = True"
| "np_less NInf PInf = True"
| "np_less _ _ = False"

definition np_greater :: "npfloat \<Rightarrow> npfloat \<Rightarrow> bool" where
  "np_greater a b = np_less b a"

definition np_less_equal :: "npfloat \<Rightarrow> npfloat \<Rightarrow> bool" where
  "np_less_equal a b = (a \<noteq> NaN \<and> b \<noteq> NaN \<and> (a = b \<or> np_less a b))"

fun np_true_divide :: "npfloat \<Rightarrow> npfloat \<Rightarrow> npfloat" where
  "np_true_divide NaN _ = NaN"
| "np_true_divide _ NaN = NaN"
| "np_true_divide (Fin a) (Fin b) =
     (if b \<noteq> 0 then Fin (a / b)
      else if 0 < a then PInf else if a < 0 then NInf else NaN)"
| "np_true_divide (Fin a) PInf = Fin 0"
| "np_true_divide (Fin a) NInf = Fin 0"
| "np_true_divide PInf (Fin b) = (if b < 0 then NInf else PInf)"
| "np_true_divide NInf (Fin b) = (if b < 0 then PInf else NInf)"
| "np_true_divide PInf PInf = NaN"
| "np_true_divide PInf NInf = NaN"
| "np_true_divide NInf PInf = NaN"
| "np_true_divide NInf NInf = NaN"

definition np_maximum :: "npfloat \<Rightarrow> npfloat \<Rightarrow> npfloat" where
  "np_maximum a b = (if a = NaN \<or> b = NaN then NaN else if np_less a b then b else a)"

subsection \<open>Two-dimensional arrays\<close>

text \<open>
  A 2-D array is the list of its rows. \<open>pixelwise R a b\<close> says that \<open>a\<close> and \<open>b\<close>
  have the same shape and that \<open>R\<close> relates the two values at every position.
\<close>

type_synonym 'a img = "'a list list"

definition dims :: "'a img \<Rightarrow> nat list" where
  "dims a = map length a"

definition same_shape :: "'a img \<Rightarrow> 'b img \<Rightarrow> bool" where
  "same_shape a b = (dims a = dims b)"

definition pixelwise :: "('a \<Rightarrow> 'b \<Rightarrow> bool) \<Rightarrow> 'a img \<Rightarrow> 'b img \<Rightarrow> bool" where
  "pixelwise R a b = list_all2 (list_all2 R) a b"

definition pixel_values :: "'a img \<Rightarrow> 'a set" where
  "pixel_values a = set (concat a)"

text \<open>\<open>inside a i j\<close>: row \<open>i\<close>, column \<open>j\<close> is a position of the array.\<close>

definition inside :: "'a img \<Rightarrow> nat \<Rightarrow> nat \<Rightarrow> bool" where
  "inside a i j = (i < length a \<and> j < length (a ! i))"

text \<open>\<^verbatim>\<open>np.max(a)\<close>: NaN if any element is, ValueError on an array of size 0.\<close>

definition np_max :: "npfloat img \<Rightarrow> error + npfloat" where
  "np_max a = (case concat a of [] \<Rightarrow> Inl ValueError | x # xs \<Rightarrow> Inr (foldl np_maximum x xs))"

text \<open>\<^verbatim>\<open>a / s\<close>, \<^verbatim>\<open>a > s\<close>, \<^verbatim>\<open>a < s\<close> and \<^verbatim>\<open>a - s\<close> for an array and a scalar.\<close>

definition np_divide_scalar :: "npfloat img \<Rightarrow> npfloat \<Rightarrow> npfloat img" where
  "np_divide_scalar a s = map (map (\<lambda>x. np_true_divide x s)) a"

definition np_greater_scalar :: "npfloat img \<Rightarrow> npfloat \<Rightarrow> bool img" where
  "np_greater_scalar a s = map (map (\<lambda>x. np_greater x s)) a"

definition np_less_scalar :: "npfloat img \<Rightarrow> npfloat \<Rightarrow> bool img" where
  "np_less_scalar a s = map (map (\<lambda>x. np_less x s)) a"

definition np_subtract_scalar :: "int img \<Rightarrow> int \<Rightarrow> int img" where
  "np_subtract_scalar a s = map (map (\<lambda>x. x - s)) a"

definition np_zeros_like :: "npfloat img \<Rightarrow> npfloat img" where
  "np_zeros_like a = map (map (\<lambda>_. Fin 0)) a"

text \<open>
  \<^verbatim>\<open>a[mask] = v\<close> for a boolean mask of the shape of \<open>a\<close> (in the source the mask is
  always computed from the array that \<open>a\<close> was made from by \<^verbatim>\<open>zeros_like\<close>).
\<close>

definition mask_assign :: "'a img \<Rightarrow> bool img \<Rightarrow> 'a \<Rightarrow> 'a img" where
  "mask_assign a m v = map2 (map2 (\<lambda>x b. if b then v else x)) a m"

text \<open>
  \<^verbatim>\<open>a * b\<close> for two integer arrays. Arrays of one shape are multiplied element by
  element. Arrays of different shapes raise ValueError; numpy would stretch an axis
  of length one first, which no stage of this pipeline produces.
\<close>

definition np_multiply :: "int img \<Rightarrow> int img \<Rightarrow> error + int img" where
  "np_multiply a b =
     (if same_shape a b then Inr (map2 (map2 (\<lambda>x y. x * y)) a b) else Inl ValueError)"

text \<open>\<^verbatim>\<open>xs[i]\<close> on a one-dimensional array, for an index that is not negative.\<close>

definition np_getitem :: "'a list \<Rightarrow> nat \<Rightarrow> error + 'a" where
  "np_getitem xs i = (if i < length xs then Inr (xs ! i) else Inl IndexError)"

text \<open>Python's \<^verbatim>\<open>a / b\<close> for an int \<open>a\<close> that is not negative and an int \<open>b\<close>.\<close>

definition py_truediv :: "nat \<Rightarrow> int \<Rightarrow> error + npfloat" where
  "py_truediv a b = (if b = 0 then Inl ZeroDivisionError else Inr (Fin (real a / real_of_int b)))"

subsection \<open>The library routines and the parameters\<close>

datatype cell = CInt int | CFloat npfloat | CStr string

text \<open>
  The routines of scipy.ndimage and scikit-image that the module calls, with the
  arguments it passes. \<open>regionprops_table\<close> returns a dict from column names to
  columns, kept here as a list of pairs in the dict's order. \<open>format_fov\<close> is the text
  that xarray gives for a zero-dimensional DataArray holding a name when an f-string
  formats it: the array's repr, whose wording depends on the version of xarray.
\<close>

record lib =
  gaussian_filter :: "npfloat img \<Rightarrow> npfloat \<Rightarrow> error + npfloat img"
  equalize_adapthist :: "npfloat img \<Rightarrow> npfloat \<Rightarrow> error + npfloat img"
  meijering :: "npfloat img \<Rightarrow> npfloat list \<Rightarrow> bool \<Rightarrow> error + npfloat img"
  distance_transform_edt :: "bool img \<Rightarrow> error + npfloat img"
  threshold_multiotsu :: "npfloat img \<Rightarrow> nat \<Rightarrow> error + npfloat list"
  sobel :: "npfloat img \<Rightarrow> error + npfloat img"
  watershed :: "npfloat img \<Rightarrow> npfloat img \<Rightarrow> error + int img"
  ndi_label :: "int img \<Rightarrow> error + int img \<times> nat"
  remove_small_objects :: "int img \<Rightarrow> int \<Rightarrow> error + int img"
  regionprops_table :: "int img \<Rightarrow> string list \<Rightarrow> error + (string \<times> cell list) list"
  format_fov :: "string \<Rightarrow> string"

text \<open>The keyword arguments that both functions of the module share.\<close>

record params =
  blur :: npfloat
  contrast_scaling_divisor :: int
  fiber_widths :: "npfloat list"
  ridge_cutoff :: npfloat
  sobel_blur :: npfloat
  min_fiber_size :: int

text \<open>The arrays one field of view goes through, under the names the source gives them.\<close>

record stages =
  blurred :: "npfloat img"
  contrast_adjusted :: "npfloat img"
  ridges :: "npfloat img"
  distance_transformed :: "npfloat img"
  thresholds :: "npfloat list"
  threshed :: "npfloat img"
  elevation_map :: "npfloat img"
  segmentation :: "int img"
  labeled :: "int img"
  labeled_filtered :: "int img"

subsection \<open>The body of the loop of segment\_fibers (lines 169 to 202)\<close>

text \<open>
  \<open>fov_len\<close> is \<^verbatim>\<open>channel_xr.shape[1]\<close>. The arguments of \<^verbatim>\<open>equalize_adapthist\<close> are
  evaluated from left to right: \<^verbatim>\<open>np.max\<close> first, the kernel size second.
\<close>

definition segment_fov :: "lib \<Rightarrow> params \<Rightarrow> nat \<Rightarrow> npfloat img \<Rightarrow> error + stages" where
  "segment_fov L P fov_len fiber_channel_data =
     bindE (gaussian_filter L fiber_channel_data (blur P)) (\<lambda>blurred'.
     bindE (np_max blurred') (\<lambda>mx.
     bindE (py_truediv fov_len (contrast_scaling_divisor P)) (\<lambda>kernel_size.
     bindE (equalize_adapthist L (np_divide_scalar blurred' mx) kernel_size) (\<lambda>contrast_adjusted'.
     bindE (meijering L contrast_adjusted' (fiber_widths P) False) (\<lambda>ridges'.
     bindE (distance_transform_edt L (np_greater_scalar ridges' (ridge_cutoff P))) (\<lambda>edt.
     bindE (gaussian_filter L edt (Fin 1)) (\<lambda>distance_transformed'.
     let threshed0 = np_zeros_like distance_transformed' in
     bindE (threshold_multiotsu L distance_transformed' 3) (\<lambda>thresholds'.
     bindE (np_getitem thresholds' 0) (\<lambda>t0.
     let threshed1 = mask_assign threshed0 (np_less_scalar distance_transformed' t0) (Fin 1) in
     bindE (np_getitem thresholds' 1) (\<lambda>t1.
     let threshed' = mask_assign threshed1 (np_greater_scalar distance_transformed' t1) (Fin 2) in
     bindE (gaussian_filter L distance_transformed' (sobel_blur P)) (\<lambda>smoothed.
     bindE (sobel L smoothed) (\<lambda>elevation_map'.
     bindE (watershed L elevation_map' threshed') (\<lambda>flooded.
     let segmentation' = np_subtract_scalar flooded 1 in
     bindE (ndi_label L segmentation') (\<lambda>(labeled', _).
     bindE (remove_small_objects L labeled' (min_fiber_size P)) (\<lambda>kept.
     bindE (np_multiply kept segmentation') (\<lambda>labeled_filtered'.
     Inr \<lparr> blurred = blurred', contrast_adjusted = contrast_adjusted', ridges = ridges',
           distance_transformed = distance_transformed', thresholds = thresholds',
           threshed = threshed', elevation_map = elevation_map',
           segmentation = segmentation', labeled = labeled',
           labeled_filtered = labeled_filtered' \<rparr>))))))))))))))))"

subsection \<open>The image source\<close>

text \<open>
  \<^verbatim>\<open>data_xr\<close> is an xarray DataArray of dimensions (fovs, x, y, channels). Its
  coordinates name the fields of view and the channels; \<^verbatim>\<open>.loc\<close> selects by name and
  raises KeyError for a name that is not a coordinate. The names of one axis are taken
  to be distinct, so a name selects one slice.
\<close>

record data_array =
  fovs :: "string list"
  channels :: "string list"
  xdim :: nat
  ydim :: nat
  pixel :: "string \<Rightarrow> string \<Rightarrow> nat \<Rightarrow> nat \<Rightarrow> npfloat"

text \<open>The 2-D array of one field of view and one channel, as floats.\<close>

definition channel_values :: "data_array \<Rightarrow> string \<Rightarrow> string \<Rightarrow> npfloat img" where
  "channel_values d fov ch = map (\<lambda>i. map (\<lambda>j. pixel d fov ch i j) [0..<ydim d]) [0..<xdim d]"

text \<open>\<^verbatim>\<open>data_xr.loc[fov_name, :, :, fiber_channel].values\<close>\<close>

definition loc_fov_channel :: "data_array \<Rightarrow> string \<Rightarrow> string \<Rightarrow> error + npfloat img" where
  "loc_fov_channel d fov ch =
     (if fov \<in> set (fovs d) \<and> ch \<in> set (channels d) then Inr (channel_values d fov ch)
      else Inl KeyError)"

subsection \<open>plot\_fiber\_segmentation\_steps (lines 50 to 103)\<close>

text \<open>
  The function draws nine panels and returns nothing. The model returns the arrays it
  computes and draws; the calls on the axes and the colour maps, which change none of
  them, are left out. The kernel size is \<^verbatim>\<open>channel_data.shape[0]\<close> over the divisor.
\<close>

definition plot_fiber_segmentation_steps ::
    "lib \<Rightarrow> data_array \<Rightarrow> string \<Rightarrow> string \<Rightarrow> params \<Rightarrow> error + stages" where
  "plot_fiber_segmentation_steps L data_xr fov_name fiber_channel P =
     bindE (loc_fov_channel data_xr fov_name fiber_channel) (\<lambda>channel_data.
     bindE (gaussian_filter L channel_data (blur P)) (\<lambda>blurred'.
     bindE (np_max blurred') (\<lambda>mx.
     bindE (py_truediv (length channel_data) (contrast_scaling_divisor P)) (\<lambda>kernel_size.
     bindE (equalize_adapthist L (np_divide_scalar blurred' mx) kernel_size) (\<lambda>contrast_adjusted'.
     bindE (meijering L contrast_adjusted' (fiber_widths P) False) (\<lambda>ridges'.
     bindE (distance_transform_edt L (np_greater_scalar ridges' (ridge_cutoff P))) (\<lambda>edt.
     bindE (gaussian_filter L edt (Fin 1)) (\<lambda>distance_transformed'.
     let threshed0 = np_zeros_like distance_transformed' in
     bindE (threshold_multiotsu L distance_transformed' 3) (\<lambda>thresholds'.
     bindE (np_getitem thresholds' 0) (\<lambda>t0.
     let threshed1 = mask_assign threshed0 (np_less_scalar distance_transformed' t0) (Fin 1) in
     bindE (np_getitem thresholds' 1) (\<lambda>t1.
     let threshed' = mask_assign threshed1 (np_greater_scalar distance_transformed' t1) (Fin 2) in
     bindE (gaussian_filter L distance_transformed' (sobel_blur P)) (\<lambda>smoothed.
     bindE (sobel L smoothed) (\<lambda>elevation_map'.
     bindE (watershed L elevation_map' threshed') (\<lambda>flooded.
     let segmentation' = np_subtract_scalar flooded 1 in
     bindE (ndi_label L segmentation') (\<lambda>(labeled', _).
     bindE (remove_small_objects L labeled' (min_fiber_size P)) (\<lambda>kept.
     bindE (np_multiply kept segmentation') (\<lambda>labeled_filtered'.
     Inr \<lparr> blurred = blurred', contrast_adjusted = contrast_adjusted', ridges = ridges',
           distance_transformed = distance_transformed', thresholds = thresholds',
           threshed = threshed', elevation_map = elevation_map',
           segmentation = segmentation', labeled = labeled',
           labeled_filtered = labeled_filtered' \<rparr>)))))))))))))))))"

subsection \<open>Data frames\<close>

text \<open>
  A pandas DataFrame: the column names and the rows, each row with its index label and
  one cell for every column.
\<close>

record dataframe =
  df_columns :: "string list"
  df_rows :: "(nat \<times> cell list) list"

definition df_cell :: "dataframe \<Rightarrow> nat \<times> cell list \<Rightarrow> string \<Rightarrow> cell option" where
  "df_cell df r name = map_of (zip (df_columns df) (snd r)) name"

text \<open>\<^verbatim>\<open>pd.DataFrame(d)\<close> for a dict of columns: ValueError unless all have one length.\<close>

definition pd_DataFrame :: "(string \<times> cell list) list \<Rightarrow> error + dataframe" where
  "pd_DataFrame d =
     (case d of
        [] \<Rightarrow> Inr \<lparr> df_columns = [], df_rows = [] \<rparr>
      | (_, xs) # _ \<Rightarrow>
          if list_all (\<lambda>(_, col). length col = length xs) d
          then Inr \<lparr> df_columns = map fst d,
                     df_rows = map (\<lambda>i. (i, map (\<lambda>(_, col). col ! i) d)) [0..<length xs] \<rparr>
          else Inl ValueError)"

text \<open>\<^verbatim>\<open>df[name] = v\<close> for a scalar: overwrites the column, or appends it as the last one.\<close>

definition df_setitem :: "dataframe \<Rightarrow> string \<Rightarrow> cell \<Rightarrow> dataframe" where
  "df_setitem df name v =
     (if name \<in> set (df_columns df)
      then df \<lparr> df_rows :=
             map (\<lambda>(i, cs). (i, map2 (\<lambda>c x. if c = name then v else x) (df_columns df) cs))
               (df_rows df) \<rparr>
      else \<lparr> df_columns = df_columns df @ [name],
             df_rows = map (\<lambda>(i, cs). (i, cs @ [v])) (df_rows df) \<rparr>)"

text \<open>
  \<^verbatim>\<open>pd.concat(frames)\<close>: ValueError on an empty list. The columns are the union in the
  order of first appearance, the rows follow each other with their index labels, and
  a cell of a column a frame does not have is NaN.
\<close>

definition reindex_row :: "string list \<Rightarrow> dataframe \<Rightarrow> nat \<times> cell list \<Rightarrow> nat \<times> cell list" where
  "reindex_row cols f r =
     (fst r, map (\<lambda>c. case df_cell f r c of Some x \<Rightarrow> x | None \<Rightarrow> CFloat NaN) cols)"

definition pd_concat :: "dataframe list \<Rightarrow> error + dataframe" where
  "pd_concat frames =
     (if frames = [] then Inl ValueError
      else let cols = rev (remdups (rev (concat (map df_columns frames)))) in
        Inr \<lparr> df_columns = cols,
              df_rows = concat (map (\<lambda>f. map (reindex_row cols f) (df_rows f)) frames) \<rparr>)"

subsection \<open>The file system\<close>

text \<open>
  The paths that exist and what is stored there. The failures that the source itself
  provokes are modelled: a missing output directory and \<^verbatim>\<open>os.makedirs\<close> on a path that
  exists. Writes succeed; the output directory, once it exists, is taken to be a
  directory one may write to.
\<close>

datatype artifact =
    Directory
  | FloatTiff "npfloat img"
  | LabelTiff "int img"
  | CsvFile dataframe

type_synonym filesystem = "string \<rightharpoonup> artifact"

definition os_path_exists :: "filesystem \<Rightarrow> string \<Rightarrow> bool" where
  "os_path_exists fs p = (fs p \<noteq> None)"

text \<open>\<^verbatim>\<open>os.path.join(a, b)\<close> of posixpath.\<close>

definition os_path_join :: "string \<Rightarrow> string \<Rightarrow> string" where
  "os_path_join a b =
     (if b \<noteq> [] \<and> hd b = CHR ''/'' then b
      else if a = [] \<or> last a = CHR ''/'' then a @ b
      else a @ ''/'' @ b)"

text \<open>\<^verbatim>\<open>os.makedirs(p)\<close>, with \<^verbatim>\<open>exist_ok\<close> left at its default False.\<close>

definition os_makedirs :: "filesystem \<Rightarrow> string \<Rightarrow> error + filesystem" where
  "os_makedirs fs p = (if fs p \<noteq> None then Inl (FileExistsError p) else Inr (fs(p \<mapsto> Directory)))"

definition imsave :: "filesystem \<Rightarrow> string \<Rightarrow> artifact \<Rightarrow> filesystem" where
  "imsave fs p a = fs(p \<mapsto> a)"

definition to_csv :: "filesystem \<Rightarrow> string \<Rightarrow> dataframe \<Rightarrow> filesystem" where
  "to_csv fs p df = fs(p \<mapsto> CsvFile df)"

subsection \<open>segment\_fibers (lines 155 to 224)\<close>

text \<open>
  \<^verbatim>\<open>ark.settings\<close> is not among the sources: its two constants are parameters. An
  \<open>object_properties\<close> of \<open>None\<close> stands for the default of the keyword argument.
\<close>

record settings =
  FIBER_OBJECT_PROPS :: "string list"
  FOV_ID :: string

text \<open>
  The objects that the source uses as keys of the dict \<^verbatim>\<open>fiber_label_images\<close>: a string,
  or an item of \<^verbatim>\<open>channel_xr.fovs\<close>. Iterating over a coordinate of a DataArray yields
  zero-dimensional DataArrays, each holding one name, not the names themselves.
  DataArray defines \<^verbatim>\<open>__eq__\<close> and no \<^verbatim>\<open>__hash__\<close>, so \<^verbatim>\<open>d[k] = v\<close> with such a key raises
  TypeError (unhashable type).
\<close>

datatype dict_key = Str string | DataArray0 string

definition dict_setitem ::
    "(dict_key \<rightharpoonup> 'v) \<Rightarrow> dict_key \<Rightarrow> 'v \<Rightarrow> error + (dict_key \<rightharpoonup> 'v)" where
  "dict_setitem d k v =
     (case k of Str _ \<Rightarrow> Inr (d(k \<mapsto> v)) | DataArray0 _ \<Rightarrow> Inl TypeError)"

text \<open>
  Lines 215 to 218: the property table of one field of view, as a data frame with the
  column of the field of view added. (No run reaches these lines, see the loop below;
  the cell is written as the name that the loop variable holds.)
\<close>

definition fov_table_of ::
    "lib \<Rightarrow> settings \<Rightarrow> string list \<Rightarrow> string \<Rightarrow> int img \<Rightarrow> error + dataframe" where
  "fov_table_of L S object_properties fov labeled_filtered' =
     bindE (regionprops_table L labeled_filtered' object_properties) (\<lambda>t.
     bindE (pd_DataFrame t) (\<lambda>fov_table.
     Inr (df_setitem fov_table (FOV_ID S) (CStr fov))))"

text \<open>
  Lines 204 to 211: the images written for one field of view. The file names are
  f-strings over the loop variable, so they start with \<open>format_fov\<close> of the name it
  holds.
\<close>

definition save_fov :: "lib \<Rightarrow> string \<Rightarrow> bool \<Rightarrow> string \<Rightarrow> stages \<Rightarrow> filesystem \<Rightarrow> filesystem" where
  "save_fov L out_dir debug fov r fs =
     (let debug_path = os_path_join out_dir ''_debug'';
          fs1 = (if debug then
                   imsave (imsave (imsave (imsave fs
                     (os_path_join debug_path (format_fov L fov @ ''_thresholded.tiff''))
                       (FloatTiff (threshed r)))
                     (os_path_join debug_path (format_fov L fov @ ''_ridges_thresholded.tiff''))
                       (FloatTiff (distance_transformed r)))
                     (os_path_join debug_path (format_fov L fov @ ''_meijering_filter.tiff''))
                       (FloatTiff (ridges r)))
                     (os_path_join debug_path (format_fov L fov @ ''_contrast_adjusted.tiff''))
                       (FloatTiff (contrast_adjusted r))
                 else fs)
      in imsave fs1 (os_path_join out_dir (format_fov L fov @ ''_fiber_labels.tiff''))
           (LabelTiff (labeled_filtered r)))"

text \<open>
  The loop over \<^verbatim>\<open>channel_xr.fovs\<close> (lines 168 to 219). Its state is the file system,
  the dict \<^verbatim>\<open>fiber_label_images\<close> and the list \<^verbatim>\<open>fiber_object_table\<close>. An exception leaves
  the loop with the file system as it is at that moment. The loop variable is a
  zero-dimensional DataArray holding the name \<open>fov\<close>: \<^verbatim>\<open>.loc\<close> selects by the name it
  holds (line 169), the f-strings format it (lines 205 to 211), and line 213 uses it as
  a dict key.
\<close>

fun fov_loop ::
    "lib \<Rightarrow> settings \<Rightarrow> data_array \<Rightarrow> string \<Rightarrow> string \<Rightarrow> params \<Rightarrow> string list \<Rightarrow> bool \<Rightarrow>
     string list \<Rightarrow> filesystem \<times> (dict_key \<rightharpoonup> int img) \<times> dataframe list \<Rightarrow>
     filesystem \<times> (error + (dict_key \<rightharpoonup> int img) \<times> dataframe list)" where
  "fov_loop L S data_xr fiber_channel out_dir P object_properties debug []
       (fs, fiber_label_images, fiber_object_table) =
     (fs, Inr (fiber_label_images, fiber_object_table))"
| "fov_loop L S data_xr fiber_channel out_dir P object_properties debug (fov # rest)
       (fs, fiber_label_images, fiber_object_table) =
     (case segment_fov L P (xdim data_xr) (channel_values data_xr fov fiber_channel) of
        Inl e \<Rightarrow> (fs, Inl e)
      | Inr r \<Rightarrow>
          let fs2 = save_fov L out_dir debug fov r fs in
          (case dict_setitem fiber_label_images (DataArray0 fov) (labeled_filtered r) of
             Inl e \<Rightarrow> (fs2, Inl e)
           | Inr fiber_label_images' \<Rightarrow>
               (case fov_table_of L S object_properties fov (labeled_filtered r) of
                  Inl e \<Rightarrow> (fs2, Inl e)
                | Inr fov_table \<Rightarrow>
                    fov_loop L S data_xr fiber_channel out_dir P object_properties debug rest
                      (fs2, fiber_label_images', fiber_object_table @ [fov_table]))))"

text \<open>
  Lines 155 to 224. The result is the file system after the call, and the exception
  raised or the pair returned.
\<close>

definition segment_fibers ::
    "lib \<Rightarrow> settings \<Rightarrow> data_array \<Rightarrow> string \<Rightarrow> string \<Rightarrow> params \<Rightarrow> string list option \<Rightarrow> bool \<Rightarrow>
     filesystem \<Rightarrow> filesystem \<times> (error + dataframe \<times> (dict_key \<rightharpoonup> int img))" where
  "segment_fibers L S data_xr fiber_channel out_dir P object_properties debug fs =
     (if fiber_channel \<notin> set (channels data_xr) then (fs, Inl KeyError)
      else if \<not> os_path_exists fs out_dir then (fs, Inl (FileNotFoundError out_dir))
      else
        (case (if debug then os_makedirs fs (os_path_join out_dir ''_debug'') else Inr fs) of
           Inl e \<Rightarrow> (fs, Inl e)
         | Inr fs1 \<Rightarrow>
             (case fov_loop L S data_xr fiber_channel out_dir P
                     (case object_properties of None \<Rightarrow> FIBER_OBJECT_PROPS S | Some ps \<Rightarrow> ps)
                     debug (fovs data_xr) (fs1, Map.empty, []) of
                (fs2, Inl e) \<Rightarrow> (fs2, Inl e)
              | (fs2, Inr (fiber_label_images, tables)) \<Rightarrow>
                  (case pd_concat tables of
                     Inl e \<Rightarrow> (fs2, Inl e)
                   | Inr fiber_object_table \<Rightarrow>
                       (to_csv fs2 (os_path_join out_dir ''fiber_object_table.csv'')
                          fiber_object_table,
                        Inr (fiber_object_table, fiber_label_images))))))"

section \<open>What the library routines are relied on for\<close>

text \<open>
  The claims about label values depend on what three library routines return. Each
  contract below speaks about one call: it holds when the call raised, and it says
  what the returned array is like otherwise.

  \<^item> \<^verbatim>\<open>watershed\<close>: the result has the shape of the marker image, and every pixel
    carries the label of a marker: its value is not 0 and occurs in the marker image.
    (scikit-image floods every pixel of the grid once there is a marker, and the
    cutoffs of multi-Otsu are centres of histogram bins, so the least pixel of the
    distance field lies below the first cutoff and is a class-1 marker.)
  \<^item> \<^verbatim>\<open>ndi.label\<close>: the result is 0 exactly where the input is 0, and its other values
    are exactly the numbers 1 to \<open>n\<close>. That one number marks one connected region is
    the meaning of the routine and is not part of the contract.
  \<^item> \<^verbatim>\<open>remove_small_objects\<close>: a pixel keeps its label or becomes 0, and the pixels of
    one label fare alike (a pixel fares as the first pixel of its label does).
\<close>

definition flooded_from_markers :: "npfloat img \<Rightarrow> int img \<Rightarrow> bool" where
  "flooded_from_markers markers flooded =
     (same_shape markers flooded \<and>
      (\<forall>v \<in> pixel_values flooded. v \<noteq> 0 \<and> Fin (real_of_int v) \<in> pixel_values markers))"

definition watershed_contract :: "lib \<Rightarrow> npfloat img \<Rightarrow> npfloat img \<Rightarrow> bool" where
  "watershed_contract L elevation markers =
     (case watershed L elevation markers of
        Inl _ \<Rightarrow> True
      | Inr flooded \<Rightarrow> flooded_from_markers markers flooded)"

definition label_contract :: "lib \<Rightarrow> int img \<Rightarrow> bool" where
  "label_contract L a =
     (case ndi_label L a of
        Inl _ \<Rightarrow> True
      | Inr (l, n) \<Rightarrow>
          pixelwise (\<lambda>x y. (y = 0) = (x = 0)) a l \<and> pixel_values l - {0} = {1..int n})"

definition remove_small_objects_contract :: "lib \<Rightarrow> int img \<Rightarrow> int \<Rightarrow> bool" where
  "remove_small_objects_contract L l min_size =
     (case remove_small_objects L l min_size of
        Inl _ \<Rightarrow> True
      | Inr kept \<Rightarrow>
          pixelwise (\<lambda>v w. (w = 0 \<or> w = v) \<and> map_of (zip (concat l) (concat kept)) v = Some w)
            l kept)"

section \<open>A concrete instance\<close>

text \<open>
  Stand-ins for the library routines on images of one row, simple enough to be
  evaluated. The smoothing, contrast and ridge filters return their input. The
  distance transform is the distance to the nearest background pixel of the row. The
  cutoffs are 1/2 and 3/2. The flooding gives an unmarked pixel the marker found to
  its left, or else to its right. The labelling numbers the runs of non-zero pixels
  from left to right. The size filter zeroes the labels that occur fewer than
  \<open>min_size\<close> times. The property table has the columns \<open>label\<close> and \<open>area\<close>. The text
  for a loop variable is a shortened repr.
\<close>

fun dist_left :: "nat \<Rightarrow> bool list \<Rightarrow> nat list" where
  "dist_left d [] = []"
| "dist_left d (b # bs) = (let d' = (if b then Suc d else 0) in d' # dist_left d' bs)"

definition edt_row :: "bool list \<Rightarrow> npfloat list" where
  "edt_row bs = map2 (\<lambda>l r. Fin (real (min l r)))
     (dist_left (length bs) bs) (rev (dist_left (length bs) (rev bs)))"

fun fill_left :: "int \<Rightarrow> int list \<Rightarrow> int list" where
  "fill_left c [] = []"
| "fill_left c (m # ms) = (let c' = (if m \<noteq> 0 then m else c) in c' # fill_left c' ms)"

fun marker_of :: "npfloat \<Rightarrow> int" where
  "marker_of (Fin x) = \<lfloor>x\<rfloor>"
| "marker_of _ = 0"

fun label_runs :: "nat \<Rightarrow> bool \<Rightarrow> int list \<Rightarrow> int list \<times> nat" where
  "label_runs n prev [] = ([], n)"
| "label_runs n prev (x # xs) =
     (if x = 0 then (case label_runs n False xs of (ys, n') \<Rightarrow> (0 # ys, n'))
      else let n1 = (if prev then n else Suc n) in
        (case label_runs n1 True xs of (ys, n') \<Rightarrow> (int n1 # ys, n')))"

definition positive_labels :: "int img \<Rightarrow> int list" where
  "positive_labels a = sort (remdups (filter (\<lambda>v. 0 < v) (concat a)))"

definition row_lib :: lib where
  "row_lib = \<lparr>
     gaussian_filter = (\<lambda>a sigma. Inr a),
     equalize_adapthist = (\<lambda>a kernel_size. Inr a),
     meijering = (\<lambda>a sigmas black_ridges. Inr a),
     distance_transform_edt = (\<lambda>m. Inr (map edt_row m)),
     threshold_multiotsu = (\<lambda>a classes. Inr [Fin (1 / 2), Fin (3 / 2)]),
     sobel = (\<lambda>a. Inr a),
     watershed = (\<lambda>e m. Inr (map (\<lambda>row. rev (fill_left 0 (rev (fill_left 0 (map marker_of row))))) m)),
     ndi_label = (\<lambda>a. case a of [row] \<Rightarrow> (case label_runs 0 False row of (ys, n) \<Rightarrow> Inr ([ys], n))
                        | _ \<Rightarrow> Inl (LibraryError ''one row only'')),
     remove_small_objects = (\<lambda>a min_size.
        Inr (map (map (\<lambda>v. if int (count_list (concat a) v) < min_size then 0 else v)) a)),
     regionprops_table = (\<lambda>a props.
        if set props \<subseteq> {''label'', ''area''}
        then Inr (map (\<lambda>p. (p, if p = ''label'' then map CInt (positive_labels a)
                               else map (\<lambda>l. CInt (int (count_list (concat a) l))) (positive_labels a)))
                   (remdups props))
        else Inl (LibraryError ''unknown property'')),
     format_fov = (\<lambda>name. ''<xarray.DataArray fovs () '' @ name @ ''>'') \<rparr>"

text \<open>The defaults of the keyword arguments, but for a minimum size of 3 pixels.\<close>

definition row_params :: params where
  "row_params = \<lparr> blur = Fin 2, contrast_scaling_divisor = 128, fiber_widths = [Fin 2, Fin 4],
     ridge_cutoff = Fin (1 / 10), sobel_blur = Fin 1, min_fiber_size = 3 \<rparr>"

text \<open>Two fields of view of 1 by 12 pixels, one channel, and an output directory.\<close>

definition fov0_row :: "npfloat list" where
  "fov0_row = map Fin [0, 1, 1, 1, 1, 1, 0, 0, 1, 1, 1, 0]"

definition fov1_row :: "npfloat list" where
  "fov1_row = map Fin [0, 0, 0, 1, 1, 1, 1, 0, 0, 0, 0, 0]"

definition row_data :: data_array where
  "row_data = \<lparr> fovs = [''fov0'', ''fov1''], channels = [''Collagen''], xdim = 1, ydim = 12,
     pixel = (\<lambda>fov ch i j. if j < 12 then (if fov = ''fov0'' then fov0_row ! j else fov1_row ! j) else NaN) \<rparr>"

text \<open>
  The settings, with the default property list cut down to the two columns of the
  stand-in property table.
\<close>

definition row_settings :: settings where
  "row_settings = \<lparr> FIBER_OBJECT_PROPS = [''label'', ''area''], FOV_ID = ''fov'' \<rparr>"

definition out_fs :: filesystem where
  "out_fs = [''/out'' \<mapsto> Directory]"

text \<open>The output directory after an earlier run in debug mode.\<close>

definition debug_fs :: filesystem where
  "debug_fs = out_fs(''/out/_debug'' \<mapsto> Directory)"

text \<open>A row of zeros.\<close>

definition zero_row :: "npfloat list" where
  "zero_row = replicate 12 (Fin 0)"

text \<open>What the loop body computes for the first field of view.\<close>

definition fov0_stages :: stages where
  "fov0_stages = \<lparr>
     blurred = [fov0_row], contrast_adjusted = [fov0_row], ridges = [fov0_row],
     distance_transformed = [map Fin [0, 1, 2, 3, 2, 1, 0, 0, 1, 2, 1, 0]],
     thresholds = [Fin (1 / 2), Fin (3 / 2)],
     threshed = [map Fin [1, 0, 2, 2, 2, 0, 1, 1, 0, 2, 0, 1]],
     elevation_map = [map Fin [0, 1, 2, 3, 2, 1, 0, 0, 1, 2, 1, 0]],
     segmentation = [[0, 0, 1, 1, 1, 1, 0, 0, 0, 1, 1, 0]],
     labeled = [[0, 0, 1, 1, 1, 1, 0, 0, 0, 2, 2, 0]],
     labeled_filtered = [[0, 0, 1, 1, 1, 1, 0, 0, 0, 0, 0, 0]] \<rparr>"

section \<open>Basic facts\<close>

lemma bindE_Inr_iff [simp]: "bindE m f = Inr y \<longleftrightarrow> (\<exists>x. m = Inr x \<and> f x = Inr y)"
  by (cases m) (simp_all add: bindE_def)

lemma bindE_Inr [simp]: "bindE (Inr x) f = f x"
  by (simp add: bindE_def)

lemma bindE_Inl [simp]: "bindE (Inl e) f = Inl e"
  by (simp add: bindE_def)

lemma segment_fov_Inr:
  assumes "segment_fov L P n img = Inr r"
  obtains mx ks edt t0 t1 sm ws N kept where
    "gaussian_filter L img (blur P) = Inr (blurred r)"
    "np_max (blurred r) = Inr mx"
    "py_truediv n (contrast_scaling_divisor P) = Inr ks"
    "equalize_adapthist L (np_divide_scalar (blurred r) mx) ks = Inr (contrast_adjusted r)"
    "meijering L (contrast_adjusted r) (fiber_widths P) False = Inr (ridges r)"
    "distance_transform_edt L (np_greater_scalar (ridges r) (ridge_cutoff P)) = Inr edt"
    "gaussian_filter L edt (Fin 1) = Inr (distance_transformed r)"
    "threshold_multiotsu L (distance_transformed r) 3 = Inr (thresholds r)"
    "np_getitem (thresholds r) 0 = Inr t0"
    "np_getitem (thresholds r) 1 = Inr t1"
    "threshed r = mask_assign (mask_assign (np_zeros_like (distance_transformed r))
        (np_less_scalar (distance_transformed r) t0) (Fin 1))
        (np_greater_scalar (distance_transformed r) t1) (Fin 2)"
    "gaussian_filter L (distance_transformed r) (sobel_blur P) = Inr sm"
    "sobel L sm = Inr (elevation_map r)"
    "watershed L (elevation_map r) (threshed r) = Inr ws"
    "segmentation r = np_subtract_scalar ws 1"
    "ndi_label L (segmentation r) = Inr (labeled r, N)"
    "remove_small_objects L (labeled r) (min_fiber_size P) = Inr kept"
    "np_multiply kept (segmentation r) = Inr (labeled_filtered r)"
  using assms unfolding segment_fov_def Let_def
  by (auto split: prod.splits)


lemma threshed_formula:
  "mask_assign (mask_assign (np_zeros_like d) (np_less_scalar d t0) (Fin 1))
      (np_greater_scalar d t1) (Fin 2)
   = map (map (\<lambda>x. if np_greater x t1 then Fin 2 else if np_less x t0 then Fin 1 else Fin 0)) d"
  by (simp add: mask_assign_def np_zeros_like_def np_less_scalar_def np_greater_scalar_def
      map2_map_map)

lemma pixelwise_map_right:
  "pixelwise R a (map (map f) a) \<longleftrightarrow> (\<forall>row \<in> set a. \<forall>x \<in> set row. R x (f x))"
  by (simp add: pixelwise_def list_all2_map2 list_all2_same)

lemma np_less_trans_le: "np_less d lo \<Longrightarrow> np_less_equal lo hi \<Longrightarrow> \<not> np_less hi d"
  by (cases d; cases lo; cases hi) (auto simp: np_less_equal_def)

subsection \<open>Arrays by position\<close>

lemma same_shape_lengths:
  "same_shape a b \<longleftrightarrow> length a = length b \<and> (\<forall>i < length a. length (a ! i) = length (b ! i))"
  unfolding same_shape_def dims_def
  by (auto simp: list_eq_iff_nth_eq)

lemma same_shape_inside: "same_shape a b \<Longrightarrow> inside a i j = inside b i j"
  by (auto simp: same_shape_lengths inside_def)

lemma same_shape_refl [simp]: "same_shape a a"
  by (simp add: same_shape_def)

lemma same_shape_sym: "same_shape a b \<Longrightarrow> same_shape b a"
  by (simp add: same_shape_def)

lemma same_shape_trans: "same_shape a b \<Longrightarrow> same_shape b c \<Longrightarrow> same_shape a c"
  by (simp add: same_shape_def)

lemma pixelwise_iff:
  "pixelwise R a b \<longleftrightarrow> same_shape a b \<and> (\<forall>i j. inside a i j \<longrightarrow> R (a ! i ! j) (b ! i ! j))"
  unfolding pixelwise_def same_shape_lengths inside_def list_all2_conv_all_nth
  by auto

lemma pixel_values_iff: "v \<in> pixel_values a \<longleftrightarrow> (\<exists>i j. inside a i j \<and> a ! i ! j = v)"
proof
  assume "v \<in> pixel_values a"
  then obtain row where "row \<in> set a" "v \<in> set row"
    by (auto simp: pixel_values_def)
  then obtain i j where "i < length a" "a ! i = row" "j < length row" "row ! j = v"
    by (auto simp: in_set_conv_nth)
  then show "\<exists>i j. inside a i j \<and> a ! i ! j = v"
    by (auto simp: inside_def)
next
  assume "\<exists>i j. inside a i j \<and> a ! i ! j = v"
  then obtain i j where "i < length a" "j < length (a ! i)" "a ! i ! j = v"
    by (auto simp: inside_def)
  then have "a ! i \<in> set a" "v \<in> set (a ! i)"
    by (auto simp: in_set_conv_nth)
  then show "v \<in> pixel_values a"
    by (auto simp: pixel_values_def)
qed

lemma map_map_shape [simp]: "same_shape a (map (map f) a)"
  by (simp add: same_shape_def dims_def)

lemma map_map_nth: "inside a i j \<Longrightarrow> map (map f) a ! i ! j = f (a ! i ! j)"
  by (simp add: inside_def)

lemma map2_map2_shape: "same_shape a b \<Longrightarrow> same_shape a (map2 (map2 f) a b)"
  by (simp add: same_shape_lengths)

lemma map2_map2_nth:
  assumes "same_shape a b" and "inside a i j"
  shows "map2 (map2 f) a b ! i ! j = f (a ! i ! j) (b ! i ! j)"
  using assms by (auto simp: same_shape_lengths inside_def)

subsection \<open>Runs of the loop body that return\<close>

lemma threshed_values:
  "pixel_values (map (map (\<lambda>x. if np_greater x t1 then Fin 2 else if np_less x t0 then Fin 1 else Fin 0)) d)
     \<subseteq> {Fin 0, Fin 1, Fin 2}"
  by (auto simp: pixel_values_def)

lemma run_pixels:
  assumes run: "segment_fov L P n img = Inr r"
  obtains flooded kept N where
    "watershed L (elevation_map r) (threshed r) = Inr flooded"
    "ndi_label L (segmentation r) = Inr (labeled r, N)"
    "remove_small_objects L (labeled r) (min_fiber_size P) = Inr kept"
    "np_multiply kept (segmentation r) = Inr (labeled_filtered r)"
    "same_shape (distance_transformed r) (threshed r)"
    "pixel_values (threshed r) \<subseteq> {Fin 0, Fin 1, Fin 2}"
    "same_shape flooded (segmentation r)"
    "\<forall>i j. inside flooded i j \<longrightarrow> segmentation r ! i ! j = flooded ! i ! j - 1"
    "same_shape kept (segmentation r)"
    "same_shape kept (labeled_filtered r)"
    "\<forall>i j. inside kept i j \<longrightarrow>
        labeled_filtered r ! i ! j = kept ! i ! j * segmentation r ! i ! j"
proof -
  from run obtain t0 t1 ws N kept where
    th: "threshed r = mask_assign (mask_assign (np_zeros_like (distance_transformed r))
        (np_less_scalar (distance_transformed r) t0) (Fin 1))
        (np_greater_scalar (distance_transformed r) t1) (Fin 2)" and
    ws: "watershed L (elevation_map r) (threshed r) = Inr ws" and
    seg: "segmentation r = np_subtract_scalar ws 1" and
    lab: "ndi_label L (segmentation r) = Inr (labeled r, N)" and
    rso: "remove_small_objects L (labeled r) (min_fiber_size P) = Inr kept" and
    mul: "np_multiply kept (segmentation r) = Inr (labeled_filtered r)"
    by (rule segment_fov_Inr)
  from mul have shape: "same_shape kept (segmentation r)"
    and lf: "labeled_filtered r = map2 (map2 (\<lambda>x y. x * y)) kept (segmentation r)"
    by (auto simp: np_multiply_def split: if_splits)
  show ?thesis
  proof (rule that [OF ws lab rso mul])
    show "same_shape (distance_transformed r) (threshed r)"
      by (simp add: th threshed_formula)
    show "pixel_values (threshed r) \<subseteq> {Fin 0, Fin 1, Fin 2}"
      unfolding th threshed_formula by (rule threshed_values)
    show "same_shape ws (segmentation r)"
      by (simp add: seg np_subtract_scalar_def)
    show "\<forall>i j. inside ws i j \<longrightarrow> segmentation r ! i ! j = ws ! i ! j - 1"
      by (simp add: seg np_subtract_scalar_def map_map_nth)
    show "same_shape kept (segmentation r)"
      by (rule shape)
    show "same_shape kept (labeled_filtered r)"
      unfolding lf using shape by (rule map2_map2_shape)
    show "\<forall>i j. inside kept i j \<longrightarrow>
        labeled_filtered r ! i ! j = kept ! i ! j * segmentation r ! i ! j"
      unfolding lf using shape by (simp add: map2_map2_nth)
  qed
qed

lemma segmentation_binary:
  assumes run: "segment_fov L P n img = Inr r"
    and flood: "watershed_contract L (elevation_map r) (threshed r)"
  shows "same_shape (threshed r) (segmentation r)"
    and "inside (segmentation r) i j \<Longrightarrow> segmentation r ! i ! j = 0 \<or> segmentation r ! i ! j = 1"
proof -
  from run obtain ws where
    ws: "watershed L (elevation_map r) (threshed r) = Inr ws" and
    vals: "pixel_values (threshed r) \<subseteq> {Fin 0, Fin 1, Fin 2}" and
    shape: "same_shape ws (segmentation r)" and
    seg: "\<forall>i j. inside ws i j \<longrightarrow> segmentation r ! i ! j = ws ! i ! j - 1"
    by (rule run_pixels)
  from flood ws have fl: "flooded_from_markers (threshed r) ws"
    by (simp add: watershed_contract_def)
  then show "same_shape (threshed r) (segmentation r)"
    using shape by (auto simp: flooded_from_markers_def intro: same_shape_trans)
  assume "inside (segmentation r) i j"
  with shape have ins: "inside ws i j"
    by (simp add: same_shape_inside)
  then have "ws ! i ! j \<in> pixel_values ws"
    by (auto simp: pixel_values_iff)
  with fl have "ws ! i ! j \<noteq> 0" "Fin (real_of_int (ws ! i ! j)) \<in> pixel_values (threshed r)"
    by (auto simp: flooded_from_markers_def)
  with vals have "ws ! i ! j = 1 \<or> ws ! i ! j = 2"
    by auto
  with seg ins show "segmentation r ! i ! j = 0 \<or> segmentation r ! i ! j = 1"
    by auto
qed

lemma filtered_pixels:
  assumes run: "segment_fov L P n img = Inr r"
    and flood: "watershed_contract L (elevation_map r) (threshed r)"
    and filter: "remove_small_objects_contract L (labeled r) (min_fiber_size P)"
  shows "same_shape (labeled r) (labeled_filtered r)"
    and "same_shape (segmentation r) (labeled_filtered r)"
    and "inside (labeled r) i j \<Longrightarrow>
           labeled_filtered r ! i ! j = 0 \<or>
           (labeled_filtered r ! i ! j = labeled r ! i ! j \<and> segmentation r ! i ! j = 1)"
proof -
  from run obtain kept where
    rso: "remove_small_objects L (labeled r) (min_fiber_size P) = Inr kept" and
    ks: "same_shape kept (segmentation r)" and
    kf: "same_shape kept (labeled_filtered r)" and
    lf': "\<forall>i j. inside kept i j \<longrightarrow>
        labeled_filtered r ! i ! j = kept ! i ! j * segmentation r ! i ! j"
    by (rule run_pixels)
  note lf = lf' [rule_format]
  from filter rso have lk: "same_shape (labeled r) kept"
    and keep: "\<And>i j. inside (labeled r) i j \<Longrightarrow> kept ! i ! j = 0 \<or> kept ! i ! j = labeled r ! i ! j"
    by (auto simp: remove_small_objects_contract_def pixelwise_iff)
  from lk kf show "same_shape (labeled r) (labeled_filtered r)"
    by (rule same_shape_trans)
  from same_shape_sym [OF ks] kf show "same_shape (segmentation r) (labeled_filtered r)"
    by (rule same_shape_trans)
  assume ins: "inside (labeled r) i j"
  with lk have ik: "inside kept i j"
    by (simp add: same_shape_inside)
  with ks have "inside (segmentation r) i j"
    by (simp add: same_shape_inside)
  from segmentation_binary(2) [OF run flood this] lf [OF ik] keep [OF ins]
  show "labeled_filtered r ! i ! j = 0 \<or>
        (labeled_filtered r ! i ! j = labeled r ! i ! j \<and> segmentation r ! i ! j = 1)"
    by auto
qed

subsection \<open>Runs of segment\_fibers\<close>

text \<open>
  The first pass of the loop ends the call: a stage raises, or else line 213 does,
  after the images of that field of view were written. Without a field of view
  \<^verbatim>\<open>pd.concat\<close> raises for want of a table. So no call returns.
\<close>

lemma fov_loop_Cons:
  "fov_loop L S d ch out P props dbg (fov # rest) (fs, imgs, tabs) =
     (case segment_fov L P (xdim d) (channel_values d fov ch) of
        Inl e \<Rightarrow> (fs, Inl e)
      | Inr r \<Rightarrow> (save_fov L out dbg fov r fs, Inl TypeError))"
  by (simp add: dict_setitem_def Let_def split: sum.splits)

declare fov_loop.simps(2) [simp del]

lemma segment_fibers_first_fov:
  assumes "ch \<in> set (channels d)" and "os_path_exists fs out" and "fovs d = fov # rest"
    and "(if dbg then os_makedirs fs (os_path_join out ''_debug'') else Inr fs) = Inr fs1"
  shows "segment_fibers L S d ch out P props dbg fs =
           (case segment_fov L P (xdim d) (channel_values d fov ch) of
              Inl e \<Rightarrow> (fs1, Inl e)
            | Inr r \<Rightarrow> (save_fov L out dbg fov r fs1, Inl TypeError))"
  unfolding segment_fibers_def using assms
  by (simp add: fov_loop_Cons split: sum.splits)

lemma segment_fibers_raises:
  "snd (segment_fibers L S d ch out P props dbg fs) \<noteq> Inr res"
proof (cases "fovs d")
  case Nil
  then show ?thesis
    by (simp add: segment_fibers_def pd_concat_def split: sum.splits)
next
  case (Cons fov rest)
  then show ?thesis
    by (simp add: segment_fibers_def fov_loop_Cons split: sum.splits)
qed

lemma last_os_path_join: "b \<noteq> [] \<Longrightarrow> last (os_path_join a b) = last b"
  by (simp add: os_path_join_def)

lemma imsave_other: "last q \<noteq> last p \<Longrightarrow> imsave fs q a p = fs p"
  by (auto simp: imsave_def)

lemma save_fov_keeps: "fs p \<noteq> None \<Longrightarrow> save_fov L out dbg fov r fs p \<noteq> None"
  by (simp add: save_fov_def imsave_def Let_def)

lemma save_fov_other:
  assumes "last p \<noteq> CHR ''f''"
  shows "save_fov L out dbg fov r fs p = fs p"
proof -
  have tiff: "imsave fs' (os_path_join a (name @ sfx)) x p = fs' p"
    if "sfx \<noteq> []" "last sfx = CHR ''f''" for fs' a name sfx x
    using that assms by (intro imsave_other) (simp add: last_os_path_join)
  show ?thesis
    by (simp add: save_fov_def Let_def tiff)
qed

lemma save_fov_label:
  "save_fov L out dbg fov r fs (os_path_join out (format_fov L fov @ ''_fiber_labels.tiff'')) =
     Some (LabelTiff (labeled_filtered r))"
  by (simp add: save_fov_def imsave_def Let_def)

lemma plot_is_loop_body:
  assumes "fov \<in> set (fovs d)" and "ch \<in> set (channels d)"
  shows "plot_fiber_segmentation_steps L d fov ch P =
         segment_fov L P (xdim d) (channel_values d fov ch)"
proof -
  have "length (channel_values d fov ch) = xdim d"
    by (simp add: channel_values_def)
  with assms show ?thesis
    by (simp add: plot_fiber_segmentation_steps_def segment_fov_def loc_fov_channel_def)
qed

subsection \<open>The concrete runs\<close>

lemma fov0_run: "segment_fov row_lib row_params 1 [fov0_row] = Inr fov0_stages"
  by code_simp

lemma row_channels:
  "channel_values row_data ''fov0'' ''Collagen'' = [fov0_row]"
  "channel_values row_data ''fov1'' ''Collagen'' = [fov1_row]"
  by code_simp+

lemma row_call:
  assumes "os_path_exists fs ''/out''"
  shows "segment_fibers row_lib row_settings row_data ''Collagen'' ''/out'' row_params props False fs
     = (save_fov row_lib ''/out'' False ''fov0'' fov0_stages fs, Inl TypeError)"
proof -
  have d: "fovs row_data = [''fov0'', ''fov1'']" "channels row_data = [''Collagen'']"
    "xdim row_data = 1"
    by (simp_all add: row_data_def)
  show ?thesis
    using assms
    by (simp add: segment_fibers_def d fov_loop_Cons row_channels fov0_run [unfolded One_nat_def])
qed

lemma fov0_contracts:
  "watershed_contract row_lib (elevation_map fov0_stages) (threshed fov0_stages)"
  "label_contract row_lib (segmentation fov0_stages)"
  "remove_small_objects_contract row_lib (labeled fov0_stages) (min_fiber_size row_params)"
  by code_simp+

section \<open>The claims\<close>

subsection \<open>C3: the three classes of the distance field\<close>

text \<open>
  C3. In a run of the loop body that returns, the thresholding routine was asked for
  three classes on the smoothed distance field; when it returned the two cutoffs
  \<open>lo \<le> hi\<close>, every pixel strictly below \<open>lo\<close> has class 1 in the classification
  image, every pixel strictly above \<open>hi\<close> has class 2, and every pixel of the closed
  band from \<open>lo\<close> to \<open>hi\<close> keeps the value 0.
\<close>

theorem threshold_classes:
  assumes run: "segment_fov L P n img = Inr r"
    and two: "thresholds r = [lo, hi]"
    and ordered: "np_less_equal lo hi"
  shows "threshold_multiotsu L (distance_transformed r) 3 = Inr [lo, hi] \<and>
         pixelwise (\<lambda>d c. (np_less d lo \<longrightarrow> c = Fin 1) \<and>
                           (np_greater d hi \<longrightarrow> c = Fin 2) \<and>
                           (np_less_equal lo d \<and> np_less_equal d hi \<longrightarrow> c = Fin 0))
           (distance_transformed r) (threshed r)"
proof -
  from run obtain t0 t1 where
    otsu: "threshold_multiotsu L (distance_transformed r) 3 = Inr (thresholds r)" and
    t0: "np_getitem (thresholds r) 0 = Inr t0" and
    t1: "np_getitem (thresholds r) 1 = Inr t1" and
    th: "threshed r = mask_assign (mask_assign (np_zeros_like (distance_transformed r))
        (np_less_scalar (distance_transformed r) t0) (Fin 1))
        (np_greater_scalar (distance_transformed r) t1) (Fin 2)"
    by (rule segment_fov_Inr)
  from t0 t1 two have eq: "t0 = lo" "t1 = hi"
    by (simp_all add: np_getitem_def)
  have cls: "(np_less d lo \<longrightarrow> c = Fin 1) \<and> (np_greater d hi \<longrightarrow> c = Fin 2) \<and>
             (np_less_equal lo d \<and> np_less_equal d hi \<longrightarrow> c = Fin 0)"
    if c: "c = (if np_greater d hi then Fin 2 else if np_less d lo then Fin 1 else Fin 0)" for d c
  proof (intro conjI impI)
    assume lt: "np_less d lo"
    with ordered have "\<not> np_greater d hi"
      by (simp add: np_greater_def np_less_trans_le)
    with lt c show "c = Fin 1" by simp
  next
    assume "np_greater d hi"
    with c show "c = Fin 2" by simp
  next
    assume band: "np_less_equal lo d \<and> np_less_equal d hi"
    have "\<not> np_greater d hi"
      using band by (cases d; cases hi) (auto simp: np_less_equal_def np_greater_def)
    moreover have "\<not> np_less d lo"
      using band by (cases d; cases lo) (auto simp: np_less_equal_def)
    ultimately show "c = Fin 0" using c by simp
  qed
  have "pixelwise (\<lambda>d c. (np_less d lo \<longrightarrow> c = Fin 1) \<and> (np_greater d hi \<longrightarrow> c = Fin 2) \<and>
                           (np_less_equal lo d \<and> np_less_equal d hi \<longrightarrow> c = Fin 0))
           (distance_transformed r) (threshed r)"
    unfolding th threshed_formula eq pixelwise_map_right
    by (intro ballI cls refl)
  with otsu two show ?thesis by simp
qed

theorem threshold_classes_witness:
  "segment_fov row_lib row_params 1 [fov0_row] = Inr fov0_stages \<and>
   thresholds fov0_stages = [Fin (1 / 2), Fin (3 / 2)] \<and>
   np_less_equal (Fin (1 / 2)) (Fin (3 / 2)) \<and>
   threshold_multiotsu row_lib (distance_transformed fov0_stages) 3
     = Inr [Fin (1 / 2), Fin (3 / 2)] \<and>
   pixelwise (\<lambda>d c. (np_less d (Fin (1 / 2)) \<longrightarrow> c = Fin 1) \<and>
                     (np_greater d (Fin (3 / 2)) \<longrightarrow> c = Fin 2) \<and>
                     (np_less_equal (Fin (1 / 2)) d \<and> np_less_equal d (Fin (3 / 2)) \<longrightarrow> c = Fin 0))
     (distance_transformed fov0_stages) (threshed fov0_stages)"
proof -
  have two: "thresholds fov0_stages = [Fin (1 / 2), Fin (3 / 2)]"
    by (simp add: fov0_stages_def)
  have ordered: "np_less_equal (Fin (1 / 2)) (Fin (3 / 2))"
    by (simp add: np_less_equal_def)
  from threshold_classes [OF fov0_run two ordered] fov0_run two ordered
  show ?thesis by simp
qed

subsection \<open>C7: a missing output directory\<close>

text \<open>
  C7, as the code has it. When the output directory does not exist, segment\_fibers
  raises before the loop, whatever the library routines, the settings and the fields
  of view are, and leaves the file system as it found it: FileNotFoundError when the
  channel is one of the array's, KeyError from the channel selection of line 155
  otherwise.
\<close>

theorem missing_out_dir_fails_fast:
  assumes "\<not> os_path_exists fs out_dir"
  shows "segment_fibers L S data_xr fiber_channel out_dir P object_properties debug fs =
           (fs, Inl (if fiber_channel \<in> set (channels data_xr)
                     then FileNotFoundError out_dir else KeyError))"
  using assms by (simp add: segment_fibers_def)

theorem missing_out_dir_fails_fast_witness:
  "\<not> os_path_exists out_fs ''/elsewhere'' \<and>
   segment_fibers row_lib row_settings row_data ''Collagen'' ''/elsewhere'' row_params None True out_fs
     = (out_fs, Inl (FileNotFoundError ''/elsewhere''))"
proof -
  have absent: "\<not> os_path_exists out_fs ''/elsewhere''"
    by (simp add: os_path_exists_def out_fs_def)
  from missing_out_dir_fails_fast [OF absent] absent
  show ?thesis by (simp add: row_data_def)
qed

text \<open>
  The claim as stated fails for a channel the array does not have: the exception is
  KeyError, not FileNotFoundError.
\<close>

theorem missing_out_dir_counterexample:
  "\<not> os_path_exists out_fs ''/elsewhere'' \<and>
   segment_fibers row_lib row_settings row_data ''DAPI'' ''/elsewhere'' row_params None False out_fs
     = (out_fs, Inl KeyError)"
  by (simp add: segment_fibers_def os_path_exists_def out_fs_def row_data_def)

subsection \<open>C8: the debug directory\<close>

text \<open>
  C8. The claim says that a \<open>_debug\<close> directory that already exists is no error. In
  the code it is one: line 166 calls \<^verbatim>\<open>os.makedirs(debug_path)\<close> with \<^verbatim>\<open>exist_ok\<close> at its
  default, so a second run in debug mode on the same output directory raises
  FileExistsError before any field of view is processed.
\<close>

theorem debug_dir_exists_raises:
  "os_path_exists debug_fs ''/out'' \<and>
   os_path_join ''/out'' ''_debug'' = ''/out/_debug'' \<and>
   os_path_exists debug_fs ''/out/_debug'' \<and>
   segment_fibers row_lib row_settings row_data ''Collagen'' ''/out'' row_params None True debug_fs
     = (debug_fs, Inl (FileExistsError ''/out/_debug''))"
  by (simp add: segment_fibers_def os_path_exists_def os_path_join_def os_makedirs_def
      debug_fs_def out_fs_def row_data_def)

text \<open>
  The same for every input: in debug mode an existing \<open>_debug\<close> directory stops the
  call, no call removes a path, and so after a call in debug mode that got past the
  two checks on its arguments, the next call with the same arguments raises
  FileExistsError.
\<close>

lemma existing_debug_dir_raises:
  assumes "fiber_channel \<in> set (channels data_xr)"
    and "os_path_exists fs out_dir"
    and "os_path_exists fs (os_path_join out_dir ''_debug'')"
  shows "segment_fibers L S data_xr fiber_channel out_dir P object_properties True fs =
           (fs, Inl (FileExistsError (os_path_join out_dir ''_debug'')))"
  using assms by (simp add: segment_fibers_def os_makedirs_def os_path_exists_def)

lemma segment_fibers_keeps_paths:
  assumes "fs p \<noteq> None"
  shows "fst (segment_fibers L S d ch out P props dbg fs) p \<noteq> None"
proof (cases "fovs d")
  case Nil
  with assms show ?thesis
    by (simp add: segment_fibers_def pd_concat_def os_makedirs_def)
next
  case (Cons fov rest)
  with assms show ?thesis
    by (simp add: segment_fibers_def fov_loop_Cons os_makedirs_def save_fov_keeps
        split: sum.splits del: not_None_eq)
qed

text \<open>
  The rest of the claim holds. The paths that the loop writes end in \<open>f\<close>, so after a
  call the \<open>_debug\<close> path is a new directory exactly when the call was in debug mode,
  got past the two checks and found the path absent; in every other case, and always
  without debug mode, the path is as it was.
\<close>

lemma debug_path_last: "last (os_path_join out ''_debug'') = CHR ''g''"
  by (simp add: last_os_path_join)

lemma segment_fibers_debug_path:
  "fst (segment_fibers L S d ch out P props dbg fs) (os_path_join out ''_debug'') =
     (if dbg \<and> ch \<in> set (channels d) \<and> os_path_exists fs out \<and>
         \<not> os_path_exists fs (os_path_join out ''_debug'')
      then Some Directory else fs (os_path_join out ''_debug''))"
proof -
  let ?p = "os_path_join out ''_debug''"
  have save: "save_fov L out b fov r fs1 ?p = fs1 ?p" for b fov r fs1
    by (rule save_fov_other) (simp add: debug_path_last)
  show ?thesis
  proof (cases "fovs d")
    case Nil
    then show ?thesis
      by (simp add: segment_fibers_def pd_concat_def os_makedirs_def os_path_exists_def)
  next
    case (Cons fov rest)
    then show ?thesis
      by (simp add: segment_fibers_def fov_loop_Cons os_makedirs_def os_path_exists_def save
          split: sum.splits)
  qed
qed

lemma second_debug_run_raises:
  assumes ch: "ch \<in> set (channels d)" and out: "os_path_exists fs out"
  shows "segment_fibers L S d ch out P props True
           (fst (segment_fibers L S d ch out P props True fs)) =
         (fst (segment_fibers L S d ch out P props True fs),
          Inl (FileExistsError (os_path_join out ''_debug'')))"
proof -
  let ?fs' = "fst (segment_fibers L S d ch out P props True fs)"
  from out have "os_path_exists ?fs' out"
    unfolding os_path_exists_def by (rule segment_fibers_keeps_paths)
  moreover have "os_path_exists ?fs' (os_path_join out ''_debug'')"
    using ch out by (simp add: segment_fibers_debug_path os_path_exists_def)
  ultimately show ?thesis
    using ch by (intro existing_debug_dir_raises)
qed

subsection \<open>C6: an image that is entirely zero\<close>

lemma np_max_all_zero:
  assumes "concat z \<noteq> []" and "pixel_values z \<subseteq> {Fin 0}"
  shows "np_max z = Inr (Fin 0)"
proof -
  have fold: "foldl np_maximum (Fin 0) xs = Fin 0" if "\<forall>x \<in> set xs. x = Fin 0" for xs
    using that by (induction xs) (simp_all add: np_maximum_def)
  from assms obtain x xs where c: "concat z = x # xs"
    by (cases "concat z") auto
  with assms(2) have "x = Fin 0" "\<forall>y \<in> set xs. y = Fin 0"
    by (auto simp: pixel_values_def)
  then show ?thesis
    by (simp add: np_max_def c fold)
qed

lemma np_divide_all_zero:
  assumes "pixel_values z \<subseteq> {Fin 0}"
  shows "np_divide_scalar z (Fin 0) = map (map (\<lambda>_. NaN)) z"
proof -
  have "map (\<lambda>x. np_true_divide x (Fin 0)) row = map (\<lambda>_. NaN) row" if "row \<in> set z" for row
  proof (rule map_cong [OF refl])
    fix x assume "x \<in> set row"
    with that assms have "x = Fin 0"
      by (auto simp: pixel_values_def)
    then show "np_true_divide x (Fin 0) = NaN" by simp
  qed
  then show ?thesis
    unfolding np_divide_scalar_def by (simp cong: map_cong)
qed

text \<open>
  C6, as the code has it. When the smoothed image is not empty and all zero (and the
  divisor of the kernel size is not 0), the normalisation \<^verbatim>\<open>blurred / np.max(blurred)\<close>
  raises nothing: the maximum is 0, the quotient is an array of NaN of the same shape,
  and that array is what \<^verbatim>\<open>equalize_adapthist\<close> is called with. An exception of that
  call is the outcome of the run, and a run that returns has as its contrast-adjusted
  image what the routine made of the NaN array.
\<close>

theorem all_zero_normalization_gives_nan:
  assumes smooth: "gaussian_filter L img (blur P) = Inr z"
    and nonempty: "concat z \<noteq> []"
    and zero: "pixel_values z \<subseteq> {Fin 0}"
    and divisor: "contrast_scaling_divisor P \<noteq> 0"
  shows "np_max z = Inr (Fin 0) \<and>
         np_divide_scalar z (Fin 0) = map (map (\<lambda>_. NaN)) z \<and>
         (\<forall>e. equalize_adapthist L (map (map (\<lambda>_. NaN)) z)
                 (Fin (real n / real_of_int (contrast_scaling_divisor P))) = Inl e \<longrightarrow>
              segment_fov L P n img = Inl e) \<and>
         (\<forall>r. segment_fov L P n img = Inr r \<longrightarrow>
              equalize_adapthist L (map (map (\<lambda>_. NaN)) z)
                 (Fin (real n / real_of_int (contrast_scaling_divisor P))) = Inr (contrast_adjusted r))"
proof -
  have mx: "np_max z = Inr (Fin 0)"
    using nonempty zero by (rule np_max_all_zero)
  have dv: "np_divide_scalar z (Fin 0) = map (map (\<lambda>_. NaN)) z"
    using zero by (rule np_divide_all_zero)
  have raised: "segment_fov L P n img = Inl e"
    if "equalize_adapthist L (map (map (\<lambda>_. NaN)) z)
          (Fin (real n / real_of_int (contrast_scaling_divisor P))) = Inl e" for e
    using that divisor by (simp add: segment_fov_def smooth mx dv py_truediv_def)
  have returned: "equalize_adapthist L (map (map (\<lambda>_. NaN)) z)
          (Fin (real n / real_of_int (contrast_scaling_divisor P))) = Inr (contrast_adjusted r)"
    if run: "segment_fov L P n img = Inr r" for r
  proof -
    from run obtain m ks where
      g: "gaussian_filter L img (blur P) = Inr (blurred r)" and
      m: "np_max (blurred r) = Inr m" and
      k: "py_truediv n (contrast_scaling_divisor P) = Inr ks" and
      e: "equalize_adapthist L (np_divide_scalar (blurred r) m) ks = Inr (contrast_adjusted r)"
      by (rule segment_fov_Inr)
    from g smooth have "blurred r = z" by simp
    with m mx k e divisor dv show ?thesis
      by (simp add: py_truediv_def)
  qed
  from mx dv raised returned show ?thesis by blast
qed

lemma zero_row_run:
  "\<not> isl (segment_fov row_lib row_params 1 [zero_row])"
  by code_simp

theorem all_zero_normalization_gives_nan_witness:
  "gaussian_filter row_lib [zero_row] (blur row_params) = Inr [zero_row] \<and>
   concat [zero_row] \<noteq> [] \<and>
   pixel_values [zero_row] \<subseteq> {Fin 0} \<and>
   contrast_scaling_divisor row_params \<noteq> 0 \<and>
   np_max [zero_row] = Inr (Fin 0) \<and>
   np_divide_scalar [zero_row] (Fin 0) = [replicate 12 NaN] \<and>
   (\<exists>r. segment_fov row_lib row_params 1 [zero_row] = Inr r \<and>
        equalize_adapthist row_lib [replicate 12 NaN] (Fin (1 / 128)) = Inr (contrast_adjusted r))"
proof -
  have smooth: "gaussian_filter row_lib [zero_row] (blur row_params) = Inr [zero_row]"
    by (simp add: row_lib_def)
  have nonempty: "concat [zero_row] \<noteq> []"
    by (simp add: zero_row_def)
  have zero: "pixel_values [zero_row] \<subseteq> {Fin 0}"
    by (simp add: pixel_values_def zero_row_def)
  have divisor: "contrast_scaling_divisor row_params \<noteq> 0"
    by (simp add: row_params_def)
  have nan: "map (map (\<lambda>_. NaN)) [zero_row] = [replicate 12 NaN]"
    by (simp add: zero_row_def)
  have ks: "Fin (real 1 / real_of_int (contrast_scaling_divisor row_params)) = Fin (1 / 128)"
    by (simp add: row_params_def)
  from zero_row_run obtain r where run: "segment_fov row_lib row_params 1 [zero_row] = Inr r"
    by (cases "segment_fov row_lib row_params 1 [zero_row]") simp_all
  from all_zero_normalization_gives_nan [OF smooth nonempty zero divisor, of 1] run
  have "np_max [zero_row] = Inr (Fin 0)"
    and "np_divide_scalar [zero_row] (Fin 0) = [replicate 12 NaN]"
    and "equalize_adapthist row_lib [replicate 12 NaN] (Fin (1 / 128)) = Inr (contrast_adjusted r)"
    unfolding nan ks by blast+
  with smooth nonempty zero divisor run show ?thesis by blast
qed

text \<open>
  The claim as stated fails: on an all-zero image of two pixels the normalisation
  returns NaN values, and the run goes on with them instead of raising.
\<close>

theorem all_zero_counterexample:
  "np_max [[Fin 0, Fin 0]] = Inr (Fin 0) \<and>
   np_divide_scalar [[Fin 0, Fin 0]] (Fin 0) = [[NaN, NaN]] \<and>
   map_sum id contrast_adjusted (segment_fov row_lib row_params 1 [[Fin 0, Fin 0]])
     = Inr [[NaN, NaN]]"
  by code_simp

subsection \<open>C10: the plotting function runs the same stages\<close>

text \<open>
  C10. For a field of view and a channel of the array, and the same parameter values,
  plot\_fiber\_segmentation\_steps computes exactly what the loop body of segment\_fibers
  computes for that field of view, stage by stage and exception by exception. A call
  of segment\_fibers that reaches the loop runs that body for the first field of view
  only: when the plotting function raises for it, the call raises the same exception;
  otherwise the call writes the plotting function's filtered label image as the label
  file of that field of view and then raises TypeError at line 213.
\<close>

theorem plot_agrees_with_segment_fibers:
  assumes fov: "fov \<in> set (fovs d)" and ch: "ch \<in> set (channels d)"
  shows "plot_fiber_segmentation_steps L d fov ch P =
           segment_fov L P (xdim d) (channel_values d fov ch) \<and>
         (\<forall>S out props dbg fs rest.
            fovs d = fov # rest \<and> os_path_exists fs out \<and>
            (dbg \<longrightarrow> \<not> os_path_exists fs (os_path_join out ''_debug'')) \<longrightarrow>
            (case plot_fiber_segmentation_steps L d fov ch P of
               Inl e \<Rightarrow> snd (segment_fibers L S d ch out P props dbg fs) = Inl e
             | Inr r \<Rightarrow>
                 snd (segment_fibers L S d ch out P props dbg fs) = Inl TypeError \<and>
                 fst (segment_fibers L S d ch out P props dbg fs)
                   (os_path_join out (format_fov L fov @ ''_fiber_labels.tiff'')) =
                   Some (LabelTiff (labeled_filtered r))))"
proof (intro conjI allI impI)
  show body: "plot_fiber_segmentation_steps L d fov ch P =
           segment_fov L P (xdim d) (channel_values d fov ch)"
    using fov ch by (rule plot_is_loop_body)
  fix S out props dbg fs rest
  assume a: "fovs d = fov # rest \<and> os_path_exists fs out \<and>
            (dbg \<longrightarrow> \<not> os_path_exists fs (os_path_join out ''_debug''))"
  define fs1 where "fs1 = (if dbg then fs(os_path_join out ''_debug'' \<mapsto> Directory) else fs)"
  from a have start: "(if dbg then os_makedirs fs (os_path_join out ''_debug'') else Inr fs) = Inr fs1"
    by (simp add: fs1_def os_makedirs_def os_path_exists_def)
  from a have "os_path_exists fs out" and "fovs d = fov # rest"
    by simp_all
  with ch have call: "segment_fibers L S d ch out P props dbg fs =
      (case segment_fov L P (xdim d) (channel_values d fov ch) of
         Inl e \<Rightarrow> (fs1, Inl e)
       | Inr r \<Rightarrow> (save_fov L out dbg fov r fs1, Inl TypeError))"
    using start by (rule segment_fibers_first_fov)
  show "case plot_fiber_segmentation_steps L d fov ch P of
          Inl e \<Rightarrow> snd (segment_fibers L S d ch out P props dbg fs) = Inl e
        | Inr r \<Rightarrow>
            snd (segment_fibers L S d ch out P props dbg fs) = Inl TypeError \<and>
            fst (segment_fibers L S d ch out P props dbg fs)
              (os_path_join out (format_fov L fov @ ''_fiber_labels.tiff'')) =
              Some (LabelTiff (labeled_filtered r))"
    unfolding body call
    by (simp add: save_fov_label split: sum.splits)
qed

theorem plot_agrees_with_segment_fibers_witness:
  "''fov0'' \<in> set (fovs row_data) \<and> ''Collagen'' \<in> set (channels row_data) \<and>
   fovs row_data = ''fov0'' # [''fov1''] \<and> os_path_exists out_fs ''/out'' \<and>
   plot_fiber_segmentation_steps row_lib row_data ''fov0'' ''Collagen'' row_params = Inr fov0_stages \<and>
   snd (segment_fibers row_lib row_settings row_data ''Collagen'' ''/out'' row_params None False out_fs)
     = Inl TypeError \<and>
   fst (segment_fibers row_lib row_settings row_data ''Collagen'' ''/out'' row_params None False out_fs)
     (os_path_join ''/out'' (format_fov row_lib ''fov0'' @ ''_fiber_labels.tiff''))
     = Some (LabelTiff (labeled_filtered fov0_stages))"
proof -
  have fov: "''fov0'' \<in> set (fovs row_data)" and ch: "''Collagen'' \<in> set (channels row_data)"
    and fl: "fovs row_data = ''fov0'' # [''fov1'']"
    by (simp_all add: row_data_def)
  have out: "os_path_exists out_fs ''/out''"
    by (simp add: os_path_exists_def out_fs_def)
  note agree = plot_agrees_with_segment_fibers [OF fov ch, of row_lib row_params]
  from agree have body:
    "plot_fiber_segmentation_steps row_lib row_data ''fov0'' ''Collagen'' row_params =
       segment_fov row_lib row_params (xdim row_data) (channel_values row_data ''fov0'' ''Collagen'')"
    by (rule conjunct1)
  have "xdim row_data = 1"
    by (simp add: row_data_def)
  with body have plot: "plot_fiber_segmentation_steps row_lib row_data ''fov0'' ''Collagen'' row_params
      = Inr fov0_stages"
    by (simp add: row_channels fov0_run [unfolded One_nat_def])
  from agree have "fovs row_data = ''fov0'' # [''fov1''] \<and> os_path_exists out_fs ''/out'' \<and>
      (False \<longrightarrow> \<not> os_path_exists out_fs (os_path_join ''/out'' ''_debug'')) \<longrightarrow>
      (case plot_fiber_segmentation_steps row_lib row_data ''fov0'' ''Collagen'' row_params of
         Inl e \<Rightarrow> snd (segment_fibers row_lib row_settings row_data ''Collagen'' ''/out''
                        row_params None False out_fs) = Inl e
       | Inr r \<Rightarrow>
           snd (segment_fibers row_lib row_settings row_data ''Collagen'' ''/out''
                  row_params None False out_fs) = Inl TypeError \<and>
           fst (segment_fibers row_lib row_settings row_data ''Collagen'' ''/out''
                  row_params None False out_fs)
             (os_path_join ''/out'' (format_fov row_lib ''fov0'' @ ''_fiber_labels.tiff'')) =
             Some (LabelTiff (labeled_filtered r)))"
    by blast
  with fl out plot fov ch show ?thesis
    by simp
qed

subsection \<open>C5: determinism\<close>

text \<open>
  C5. The claim compares the label images and feature tables that two invocations on
  the same data and parameter values return. The code returns neither. For two fields
  of view of 1 by 12 pixels and an output directory that exists, an invocation raises
  TypeError at line 213, and so does a second invocation with the same arguments on
  the file system that the first one left; the second leaves the files as the first
  did, the one label file of the first field of view, but there is no returned label
  image and no feature table to compare.
\<close>

theorem no_invocation_returns:
  "snd (segment_fibers row_lib row_settings row_data ''Collagen'' ''/out'' row_params None False out_fs)
     = Inl TypeError \<and>
   segment_fibers row_lib row_settings row_data ''Collagen'' ''/out'' row_params None False
     (fst (segment_fibers row_lib row_settings row_data ''Collagen'' ''/out'' row_params None False out_fs))
     = (fst (segment_fibers row_lib row_settings row_data ''Collagen'' ''/out'' row_params None False out_fs),
        Inl TypeError)"
proof -
  let ?run = "segment_fibers row_lib row_settings row_data ''Collagen'' ''/out'' row_params None False"
  let ?save = "save_fov row_lib ''/out'' False ''fov0'' fov0_stages"
  have "os_path_exists out_fs ''/out''"
    by (simp add: os_path_exists_def out_fs_def)
  then have one: "?run out_fs = (?save out_fs, Inl TypeError)"
    by (rule row_call)
  have "os_path_exists (?save out_fs) ''/out''"
    by (simp add: os_path_exists_def save_fov_keeps out_fs_def)
  then have "?run (?save out_fs) = (?save (?save out_fs), Inl TypeError)"
    by (rule row_call)
  moreover have "?save (?save out_fs) = ?save out_fs"
    by (simp add: save_fov_def imsave_def)
  ultimately have two: "?run (?save out_fs) = (?save out_fs, Inl TypeError)"
    by simp
  from one two show ?thesis
    by simp
qed

subsection \<open>C2: filtering by multiplication\<close>

text \<open>
  C2. In a run of the loop body that returns, the filtered label image is the
  element-by-element product of what \<^verbatim>\<open>remove_small_objects\<close> returned for the label
  image and the segmentation image (line 202); no relabelling takes place. When the
  watershed call and the size filter kept their contracts, every pixel of the filtered
  image is 0 or has the label it had before filtering, so every non-zero value of the
  filtered image is a label of the pre-filter label image.
\<close>

theorem filtering_keeps_labels:
  assumes run: "segment_fov L P n img = Inr r"
    and flood: "watershed_contract L (elevation_map r) (threshed r)"
    and filter: "remove_small_objects_contract L (labeled r) (min_fiber_size P)"
  shows "(\<exists>kept. remove_small_objects L (labeled r) (min_fiber_size P) = Inr kept \<and>
            labeled_filtered r = map2 (map2 (\<lambda>x y. x * y)) kept (segmentation r)) \<and>
         pixelwise (\<lambda>l f. f = 0 \<or> f = l) (labeled r) (labeled_filtered r) \<and>
         pixel_values (labeled_filtered r) - {0} \<subseteq> pixel_values (labeled r)"
proof (intro conjI)
  from run obtain kept where
    "remove_small_objects L (labeled r) (min_fiber_size P) = Inr kept"
    "np_multiply kept (segmentation r) = Inr (labeled_filtered r)"
    by (rule run_pixels)
  then show "\<exists>kept. remove_small_objects L (labeled r) (min_fiber_size P) = Inr kept \<and>
            labeled_filtered r = map2 (map2 (\<lambda>x y. x * y)) kept (segmentation r)"
    by (auto simp: np_multiply_def split: if_splits)
  note px = filtered_pixels [OF run flood filter]
  from px(1) px(3) show pw: "pixelwise (\<lambda>l f. f = 0 \<or> f = l) (labeled r) (labeled_filtered r)"
    unfolding pixelwise_iff by blast
  show "pixel_values (labeled_filtered r) - {0} \<subseteq> pixel_values (labeled r)"
  proof
    fix v assume "v \<in> pixel_values (labeled_filtered r) - {0}"
    then obtain i j where ij: "inside (labeled_filtered r) i j" "labeled_filtered r ! i ! j = v" "v \<noteq> 0"
      by (auto simp: pixel_values_iff)
    with px(1) have ins: "inside (labeled r) i j"
      by (simp add: same_shape_inside)
    with px(3) [OF ins] ij have "labeled r ! i ! j = v" by auto
    with ins show "v \<in> pixel_values (labeled r)"
      by (auto simp: pixel_values_iff)
  qed
qed

theorem filtering_keeps_labels_witness:
  "segment_fov row_lib row_params 1 [fov0_row] = Inr fov0_stages \<and>
   watershed_contract row_lib (elevation_map fov0_stages) (threshed fov0_stages) \<and>
   remove_small_objects_contract row_lib (labeled fov0_stages) (min_fiber_size row_params) \<and>
   labeled fov0_stages = [[0, 0, 1, 1, 1, 1, 0, 0, 0, 2, 2, 0]] \<and>
   labeled_filtered fov0_stages = [[0, 0, 1, 1, 1, 1, 0, 0, 0, 0, 0, 0]] \<and>
   pixelwise (\<lambda>l f. f = 0 \<or> f = l) (labeled fov0_stages) (labeled_filtered fov0_stages) \<and>
   pixel_values (labeled_filtered fov0_stages) - {0} \<subseteq> pixel_values (labeled fov0_stages)"
proof -
  have "labeled fov0_stages = [[0, 0, 1, 1, 1, 1, 0, 0, 0, 2, 2, 0]]"
    "labeled_filtered fov0_stages = [[0, 0, 1, 1, 1, 1, 0, 0, 0, 0, 0, 0]]"
    by (simp_all add: fov0_stages_def)
  with filtering_keeps_labels [OF fov0_run fov0_contracts(1) fov0_contracts(3)]
    fov0_run fov0_contracts(1) fov0_contracts(3)
  show ?thesis by blast
qed

subsection \<open>C4: watershed minus one, then labelling\<close>

text \<open>
  C4. In a run of the loop body that returns, the classification image has the values
  0, 1 and 2 only, the segmentation image is the watershed result minus 1 at every
  pixel, so a pixel flooded from a class-1 seed becomes 0, and the label image is what
  \<^verbatim>\<open>ndi.label\<close> returned for the segmentation image. When that call kept its contract,
  the label image is 0 exactly at the pixels flooded from class 1, and its other
  values are exactly the numbers 1 to N, N being the number of regions that the
  routine reported.
\<close>

theorem watershed_minus_one_then_label:
  assumes run: "segment_fov L P n img = Inr r"
    and label: "label_contract L (segmentation r)"
  shows "pixel_values (threshed r) \<subseteq> {Fin 0, Fin 1, Fin 2} \<and>
         (\<exists>flooded N.
            watershed L (elevation_map r) (threshed r) = Inr flooded \<and>
            pixelwise (\<lambda>w s. s = w - 1) flooded (segmentation r) \<and>
            ndi_label L (segmentation r) = Inr (labeled r, N) \<and>
            pixelwise (\<lambda>w l. (l = 0) = (w = 1)) flooded (labeled r) \<and>
            pixel_values (labeled r) - {0} = {1..int N})"
proof -
  from run obtain flooded N where
    ws: "watershed L (elevation_map r) (threshed r) = Inr flooded" and
    lab: "ndi_label L (segmentation r) = Inr (labeled r, N)" and
    vals: "pixel_values (threshed r) \<subseteq> {Fin 0, Fin 1, Fin 2}" and
    shape: "same_shape flooded (segmentation r)" and
    seg: "\<forall>i j. inside flooded i j \<longrightarrow> segmentation r ! i ! j = flooded ! i ! j - 1"
    by (rule run_pixels)
  from shape seg have minus: "pixelwise (\<lambda>w s. s = w - 1) flooded (segmentation r)"
    by (simp add: pixelwise_iff)
  from label lab have sl: "same_shape (segmentation r) (labeled r)"
    and zero: "\<forall>i j. inside (segmentation r) i j \<longrightarrow>
        (labeled r ! i ! j = 0) = (segmentation r ! i ! j = 0)"
    and ids: "pixel_values (labeled r) - {0} = {1..int N}"
    by (auto simp: label_contract_def pixelwise_iff)
  have "(labeled r ! i ! j = 0) = (flooded ! i ! j = 1)" if ins: "inside flooded i j" for i j
  proof -
    from ins shape have "inside (segmentation r) i j"
      by (simp add: same_shape_inside)
    with zero seg ins show ?thesis by auto
  qed
  with same_shape_trans [OF shape sl]
  have background: "pixelwise (\<lambda>w l. (l = 0) = (w = 1)) flooded (labeled r)"
    by (simp add: pixelwise_iff)
  from vals ws minus lab background ids show ?thesis by blast
qed

theorem watershed_minus_one_then_label_witness:
  "segment_fov row_lib row_params 1 [fov0_row] = Inr fov0_stages \<and>
   label_contract row_lib (segmentation fov0_stages) \<and>
   pixel_values (threshed fov0_stages) \<subseteq> {Fin 0, Fin 1, Fin 2} \<and>
   (\<exists>flooded N.
      watershed row_lib (elevation_map fov0_stages) (threshed fov0_stages) = Inr flooded \<and>
      pixelwise (\<lambda>w s. s = w - 1) flooded (segmentation fov0_stages) \<and>
      ndi_label row_lib (segmentation fov0_stages) = Inr (labeled fov0_stages, N) \<and>
      pixelwise (\<lambda>w l. (l = 0) = (w = 1)) flooded (labeled fov0_stages) \<and>
      pixel_values (labeled fov0_stages) - {0} = {1..int N})"
  using watershed_minus_one_then_label [OF fov0_run fov0_contracts(2)] fov0_run fov0_contracts(2)
  by blast

subsection \<open>C9: the label images that are returned\<close>

text \<open>
  C9. The claim is about the label image that segment\_fibers returns for every field
  of view. The code returns none. For two fields of view of 1 by 12 pixels and an
  output directory that exists, the call writes the filtered label image of the first
  field of view to a file named after the text of the loop variable, then raises
  TypeError at line 213, where the loop variable is used as a dict key; the second
  field of view is never processed and the dict of label images is never returned.
\<close>

theorem label_images_never_returned:
  "snd (segment_fibers row_lib row_settings row_data ''Collagen'' ''/out'' row_params None False out_fs)
     = Inl TypeError \<and>
   fst (segment_fibers row_lib row_settings row_data ''Collagen'' ''/out'' row_params None False out_fs)
     (os_path_join ''/out'' (format_fov row_lib ''fov0'' @ ''_fiber_labels.tiff''))
     = Some (LabelTiff [[0, 0, 1, 1, 1, 1, 0, 0, 0, 0, 0, 0]]) \<and>
   fst (segment_fibers row_lib row_settings row_data ''Collagen'' ''/out'' row_params None False out_fs)
     (os_path_join ''/out'' (format_fov row_lib ''fov1'' @ ''_fiber_labels.tiff''))
     = None"
proof -
  have "os_path_exists out_fs ''/out''"
    by (simp add: os_path_exists_def out_fs_def)
  then have run: "segment_fibers row_lib row_settings row_data ''Collagen'' ''/out'' row_params
      None False out_fs = (save_fov row_lib ''/out'' False ''fov0'' fov0_stages out_fs, Inl TypeError)"
    by (rule row_call)
  have "labeled_filtered fov0_stages = [[0, 0, 1, 1, 1, 1, 0, 0, 0, 0, 0, 0]]"
    by (simp add: fov0_stages_def)
  then have first: "save_fov row_lib ''/out'' False ''fov0'' fov0_stages out_fs
      (os_path_join ''/out'' (format_fov row_lib ''fov0'' @ ''_fiber_labels.tiff''))
      = Some (LabelTiff [[0, 0, 1, 1, 1, 1, 0, 0, 0, 0, 0, 0]])"
    by (simp add: save_fov_label)
  have second: "save_fov row_lib ''/out'' False ''fov0'' fov0_stages out_fs
      (os_path_join ''/out'' (format_fov row_lib ''fov1'' @ ''_fiber_labels.tiff'')) = None"
    by (simp add: save_fov_def imsave_def os_path_join_def row_lib_def out_fs_def)
  from run first second show ?thesis
    by simp
qed

subsection \<open>C1: rows of the feature table and labels of the label image\<close>

text \<open>
  C1. The claim is about the rows that segment\_fibers produces for every field of view
  it processes. The code produces none. The rows come from lines 215 to 219, which
  follow line 213 in the loop body; line 213 raises TypeError in the first pass. For
  two fields of view of 1 by 12 pixels and an output directory that exists, the call
  ends with TypeError and no feature table has been written.
\<close>

theorem feature_table_never_built:
  "snd (segment_fibers row_lib row_settings row_data ''Collagen'' ''/out'' row_params None False out_fs)
     = Inl TypeError \<and>
   os_path_join ''/out'' ''fiber_object_table.csv'' = ''/out/fiber_object_table.csv'' \<and>
   fst (segment_fibers row_lib row_settings row_data ''Collagen'' ''/out'' row_params None False out_fs)
     ''/out/fiber_object_table.csv'' = None"
proof -
  have "os_path_exists out_fs ''/out''"
    by (simp add: os_path_exists_def out_fs_def)
  then have run: "segment_fibers row_lib row_settings row_data ''Collagen'' ''/out'' row_params
      None False out_fs = (save_fov row_lib ''/out'' False ''fov0'' fov0_stages out_fs, Inl TypeError)"
    by (rule row_call)
  have "save_fov row_lib ''/out'' False ''fov0'' fov0_stages out_fs ''/out/fiber_object_table.csv''
      = out_fs ''/out/fiber_object_table.csv''"
    by (rule save_fov_other) simp
  then have "save_fov row_lib ''/out'' False ''fov0'' fov0_stages out_fs
      ''/out/fiber_object_table.csv'' = None"
    by (simp add: out_fs_def)
  with run show ?thesis
    by (simp add: os_path_join_def)
qed

end
